theory Spec2Isabelle
  imports Main
begin

section \<open>The Live Share 3D model viewer sample\<close>

text \<open>
  A shallow embedding of the two components of the sample: \<open>ModelViewerScene\<close>
  (the wrapper around the \<open>babylon-viewer\<close> element) and the tab content
  (\<open>LoadingErrorWrapper\<close> and \<open>LiveObjectViewer\<close>). React state and refs are
  fields of a record that every callback takes and returns; calls into the
  collaboration SDK are appended to a log; values of JavaScript's \<open>T | null\<close>
  are \<open>option\<close>s, and a truthiness test on one is written out.
\<close>

subsection \<open>LoadingErrorWrapper\<close>

text \<open>The \<open>Error\<close> object of a failed join; only its \<open>message\<close> is read.\<close>

datatype Error = Error string

fun message :: "Error \<Rightarrow> string" where
  "message (Error m) = m"

text \<open>The two fields that \<open>useLiveShareContext()\<close> is destructured into.\<close>

record LiveShareContext =
  joined :: bool
  joinError :: "Error option"

text \<open>What the wrapper returns: a \<open>Text\<close>, the centred \<open>Spinner\<close>, or its children.\<close>

datatype 'a WrapperElement = Text string | FlexColumnSpinner | Fragment 'a

definition LoadingErrorWrapper :: "LiveShareContext \<Rightarrow> 'a \<Rightarrow> 'a WrapperElement" where
  "LoadingErrorWrapper ctx children =
     (case joinError ctx of
        Some e \<Rightarrow> Text (message e)
      | None \<Rightarrow> if \<not> joined ctx then FlexColumnSpinner else Fragment children)"

subsection \<open>Babylon.js objects\<close>

text \<open>
  The types are Babylon's; each carries the fields the sample reads or writes.
  \<open>'n\<close> stands for JavaScript numbers, which the sample only copies, and \<open>'c\<close> for
  \<open>Color3\<close>. A material is a \<open>PBRMaterial\<close> (with its \<open>albedoColor\<close>) or any other
  kind, so that \<open>instanceof PBRMaterial\<close> is a test on the constructor.
\<close>

datatype 'n Vector3 = Vector3 'n 'n 'n

datatype 'c Material = PBRMaterial string 'c | OtherMaterial string

fun material_name :: "'c Material \<Rightarrow> string" where
  "material_name (PBRMaterial n c) = n"
| "material_name (OtherMaterial n) = n"

datatype 'c AbstractMesh = AbstractMesh "'c Material option"

fun mesh_material :: "'c AbstractMesh \<Rightarrow> 'c Material option" where
  "mesh_material (AbstractMesh m) = m"

record 'c PickingInfo =
  hit :: bool
  pickedMesh :: "'c AbstractMesh option"

record 'n IPointerEvent =
  clientX :: 'n
  clientY :: 'n

text \<open>
  An observable holds its observers in the order they were added. An observer is
  known by its identity, a number that \<open>add\<close> picks fresh.
\<close>

datatype Observer = Observer nat

fun observer_id :: "Observer \<Rightarrow> nat" where
  "observer_id (Observer k) = k"

definition fresh_observer :: "Observer list \<Rightarrow> Observer" where
  "fresh_observer obs = Observer (Suc (foldr max (map observer_id obs) 0))"

definition observable_add :: "Observer list \<Rightarrow> Observer \<times> Observer list" where
  "observable_add obs = (fresh_observer obs, obs @ [fresh_observer obs])"

definition observer_remove :: "Observer \<Rightarrow> Observer list \<Rightarrow> Observer list" where
  "observer_remove ob obs = filter (\<lambda>o'. o' \<noteq> ob) obs"

record 'n ArcRotateCamera =
  position :: "'n Vector3"
  useAutoRotationBehavior :: bool
  onViewMatrixChangedObservable :: "Observer list"

text \<open>
  The callbacks the sample hands to the scene: the pointer handler,
  and the one-shot closures queued with \<open>onBeforeRenderObservable.addOnce\<close>, each of
  which closed over the remote camera position it is to apply.
\<close>

datatype PointerHandler = HandlePointerDown

datatype 'n BeforeRenderCallback = ApplyRemoteCameraUpdate "'n Vector3"

record ('c, 'n) Scene =
  materials :: "'c Material list"
  activeCamera :: "'n ArcRotateCamera option"
  onPointerDown :: "PointerHandler option"
  onBeforeRenderObservable :: "'n BeforeRenderCallback list"

text \<open>
  \<open>scene.getMaterialByName\<close>: the first material of the scene with that name, as a
  reference (its index in \<open>materials\<close>), or null.
\<close>

fun indexOfName :: "string \<Rightarrow> 'c Material list \<Rightarrow> nat option" where
  "indexOfName n [] = None"
| "indexOfName n (m # ms) =
     (if material_name m = n then Some 0 else map_option Suc (indexOfName n ms))"

definition getMaterialByName :: "('c, 'n) Scene \<Rightarrow> string \<Rightarrow> nat option" where
  "getMaterialByName scene n = indexOfName n (materials scene)"

subsection \<open>What the collaboration SDK provides and receives\<close>

text \<open>
  Modelled from the spec: the enum \<open>FollowModeType\<close> is declared in
  \<open>@microsoft/live-share\<close>, not in this repository; its members are the seven
  follow-mode types that the source names.
\<close>

datatype FollowModeType =
    local | activePresenter | activeFollowers | followPresenter
  | suspendFollowPresenter | followUser | suspendFollowUser

datatype 'n CameraPosition = CameraPosition 'n 'n 'n

record 'n ICustomFollowData =
  cameraPosition :: "'n CameraPosition option"

text \<open>
  Modelled from the spec: \<open>IFollowModeState\<close> is declared in
  \<open>@microsoft/live-share\<close>; the fields are those the source reads (\<open>type\<close>,
  \<open>value\<close>, \<open>followingUserId\<close>, \<open>isLocalValue\<close>).
\<close>

record 'n IFollowModeState =
  stateType :: FollowModeType
  stateValue :: "'n ICustomFollowData"
  followingUserId :: string
  isLocalValue :: bool

text \<open>
  The functions of \<open>useSharedMap\<close> and \<open>useLiveFollowMode\<close> that the component
  calls. A call is recorded with its arguments, in the order the calls are made.
\<close>

datatype 'n LiveShareCall =
    setMaterialColor string string
  | updateUserCameraState "'n ICustomFollowData"
  | startPresenting
  | stopPresenting
  | followUserCall string
  | stopFollowing
  | beginSuspension
  | endSuspension

subsection \<open>LiveObjectViewer: state and callbacks\<close>

text \<open>
  The component's own refs and state, the log of SDK calls and the console. Values
  that the hooks provide (\<open>colorsMap\<close>, \<open>sharedColorsMap\<close>, \<open>remoteCameraState\<close>)
  are arguments of the callbacks that read them. A callback reads the current
  state. Refs are read when the callback runs, and each \<open>useCallback\<close> lists the
  state it reads among its dependencies, with one exception:
  \<open>snapCameraIfFollowingUser\<close> is memoized on \<open>remoteCameraState\<close> alone and
  sees the \<open>camera\<close> of the render in which that state last changed. It runs in
  the effect that follows such a render, where that camera is the current one, and
  in the ready callback, before any camera has been set.
\<close>

record ('c, 'n) LiveObjectViewer =
  sceneRef :: "('c, 'n) Scene option"
  camera :: "'n ArcRotateCamera option"
  isApplyingRemoteCameraUpdate :: bool
  selectedMaterialName :: "string option"
  liveShareCalls :: "'n LiveShareCall list"
  console :: "Error list"

definition initialViewer :: "('c, 'n) LiveObjectViewer" where
  "initialViewer =
     \<lparr>sceneRef = None, camera = None, isApplyingRemoteCameraUpdate = False,
      selectedMaterialName = None, liveShareCalls = [], console = []\<rparr>"

text \<open>JavaScript truthiness of a \<open>string | null\<close>: null and the empty string are falsy.\<close>

definition truthy :: "string option \<Rightarrow> bool" where
  "truthy s = (case s of None \<Rightarrow> False | Some n \<Rightarrow> n \<noteq> [])"

text \<open>
  The block shared by \<open>onChangeColor\<close> and \<open>applyRemoteColors\<close>: look the material
  up by name and, if it exists and is a \<open>PBRMaterial\<close>, assign its \<open>albedoColor\<close>.
  \<open>FromHexString\<close> is \<open>Color3.FromHexString\<close>.
\<close>

definition recolorMaterial ::
  "(string \<Rightarrow> 'c) \<Rightarrow> string \<Rightarrow> string \<Rightarrow> ('c, 'n) Scene \<Rightarrow> ('c, 'n) Scene" where
  "recolorMaterial FromHexString key v scene =
     (case getMaterialByName scene key of
        None \<Rightarrow> scene
      | Some i \<Rightarrow>
          (case materials scene ! i of
             PBRMaterial n old \<Rightarrow>
               scene\<lparr>materials := (materials scene)[i := PBRMaterial n (FromHexString v)]\<rparr>
           | OtherMaterial n \<Rightarrow> scene))"

text \<open>
  \<open>onChangeColor\<close>. \<open>setEntry key v\<close> says how the hook's \<open>setEntry\<close> ends:
  \<open>None\<close> when it returns, \<open>Some e\<close> when it throws \<open>e\<close>, which the \<open>catch\<close>
  logs to the console.
\<close>

definition onChangeColor ::
  "(string \<Rightarrow> string \<Rightarrow> Error option) \<Rightarrow> (string \<Rightarrow> 'c) \<Rightarrow> string \<Rightarrow>
   ('c, 'n) LiveObjectViewer \<Rightarrow> ('c, 'n) LiveObjectViewer" where
  "onChangeColor setEntry FromHexString v st =
     (case selectedMaterialName st of
        None \<Rightarrow> st
      | Some name \<Rightarrow>
          if name = [] then st
          else
            (case sceneRef st of
               None \<Rightarrow> st
             | Some scene \<Rightarrow>
                 let st1 = st\<lparr>liveShareCalls := liveShareCalls st @ [setMaterialColor name v]\<rparr>
                 in (case setEntry name v of
                       Some err \<Rightarrow> st1\<lparr>console := console st1 @ [err]\<rparr>
                     | None \<Rightarrow>
                         st1\<lparr>sceneRef := Some (recolorMaterial FromHexString name v scene)\<rparr>)))"

text \<open>
  The test \<open>pickResult && pickResult.hit && pickResult.pickedMesh\<close>: the picked mesh
  when all three hold.
\<close>

definition hitMesh :: "'c PickingInfo option \<Rightarrow> 'c AbstractMesh option" where
  "hitMesh pickResult =
     (case pickResult of
        None \<Rightarrow> None
      | Some p \<Rightarrow> if hit p then pickedMesh p else None)"

text \<open>\<open>handlePointerDown\<close>; \<open>pick\<close> is \<open>Scene.pick\<close>.\<close>

definition handlePointerDown ::
  "(('c, 'n) Scene \<Rightarrow> 'n \<Rightarrow> 'n \<Rightarrow> 'c PickingInfo option) \<Rightarrow> 'n IPointerEvent \<Rightarrow>
   ('c, 'n) LiveObjectViewer \<Rightarrow> ('c, 'n) LiveObjectViewer" where
  "handlePointerDown pick evt st =
     (case sceneRef st of
        None \<Rightarrow> st
      | Some scene \<Rightarrow>
          (case hitMesh (pick scene (clientX evt) (clientY evt)) of
             Some mesh \<Rightarrow>
               (case mesh_material mesh of
                  None \<Rightarrow> st
                | Some m \<Rightarrow> st\<lparr>selectedMaterialName := Some (material_name m)\<rparr>)
           | None \<Rightarrow>
               if \<not> truthy (selectedMaterialName st) then st
               else st\<lparr>selectedMaterialName := None\<rparr>))"

text \<open>
  \<open>applyRemoteColors\<close>: \<open>colorsMap.forEach\<close> visits the entries in insertion order;
  the callback returns at once while there is no scene.
\<close>

definition applyRemoteColor ::
  "(string \<Rightarrow> 'c) \<Rightarrow> string \<times> string \<Rightarrow> ('c, 'n) LiveObjectViewer \<Rightarrow>
   ('c, 'n) LiveObjectViewer" where
  "applyRemoteColor FromHexString entry st =
     (case sceneRef st of
        None \<Rightarrow> st
      | Some scene \<Rightarrow>
          st\<lparr>sceneRef := Some (recolorMaterial FromHexString (fst entry) (snd entry) scene)\<rparr>)"

definition applyRemoteColors ::
  "(string \<Rightarrow> 'c) \<Rightarrow> (string \<times> string) list \<Rightarrow> ('c, 'n) LiveObjectViewer \<Rightarrow>
   ('c, 'n) LiveObjectViewer" where
  "applyRemoteColors FromHexString colorsMap st =
     fold (applyRemoteColor FromHexString) colorsMap st"

text \<open>\<open>sendCameraPos\<close>.\<close>

definition sendCameraPos :: "('c, 'n) LiveObjectViewer \<Rightarrow> ('c, 'n) LiveObjectViewer" where
  "sendCameraPos st =
     (case camera st of
        None \<Rightarrow> st
      | Some cam \<Rightarrow>
          (case position cam of
             Vector3 x y z \<Rightarrow>
               st\<lparr>liveShareCalls := liveShareCalls st @
                    [updateUserCameraState \<lparr>cameraPosition = Some (CameraPosition x y z)\<rparr>]\<rparr>))"

text \<open>
  \<open>snapCameraIfFollowingUser\<close>: when nothing makes it return, it queues the closure
  that applies the remote position before the next render.
\<close>

definition snapCameraIfFollowingUser ::
  "'n IFollowModeState option \<Rightarrow> ('c, 'n) LiveObjectViewer \<Rightarrow> ('c, 'n) LiveObjectViewer" where
  "snapCameraIfFollowingUser remoteCameraState st =
     (case remoteCameraState of
        None \<Rightarrow> st
      | Some rs \<Rightarrow>
          (case cameraPosition (stateValue rs) of
             None \<Rightarrow> st
           | Some (CameraPosition x y z) \<Rightarrow>
               if isLocalValue rs then st
               else
                 (case camera st of
                    None \<Rightarrow> st
                  | Some cam \<Rightarrow>
                      let remoteCameraPos = Vector3 x y z
                      in (case sceneRef st of
                            None \<Rightarrow> st
                          | Some scene \<Rightarrow>
                              st\<lparr>sceneRef := Some (scene\<lparr>onBeforeRenderObservable :=
                                   onBeforeRenderObservable scene @
                                     [ApplyRemoteCameraUpdate remoteCameraPos]\<rparr>)\<rparr>))))"

text \<open>\<open>onCameraViewMatrixChanged\<close>.\<close>

definition onCameraViewMatrixChanged ::
  "('c, 'n) LiveObjectViewer \<Rightarrow> ('c, 'n) LiveObjectViewer" where
  "onCameraViewMatrixChanged st =
     (if \<not> isApplyingRemoteCameraUpdate st
      then (let st1 = sendCameraPos st
            in st1\<lparr>liveShareCalls := liveShareCalls st1 @ [beginSuspension]\<rparr>)
      else st)"

text \<open>
  The observers of \<open>camera.onViewMatrixChangedObservable\<close> are the ones the effect
  below adds, each with \<open>onCameraViewMatrixChanged\<close> as its callback; a
  notification runs them in order.
\<close>

definition notifyViewMatrixChanged ::
  "('c, 'n) LiveObjectViewer \<Rightarrow> ('c, 'n) LiveObjectViewer" where
  "notifyViewMatrixChanged st =
     (case camera st of
        None \<Rightarrow> st
      | Some cam \<Rightarrow>
          fold (\<lambda>ob. onCameraViewMatrixChanged) (onViewMatrixChangedObservable cam) st)"

text \<open>
  The three methods of Babylon's \<open>ArcRotateCamera\<close> that the closure calls. What
  they compute is Babylon's (\<open>setPosition\<close> rebuilds the angles and the radius,
  \<open>update\<close> applies the inputs and the limits and recomputes the view matrix,
  \<open>updateCache\<close> refreshes the cache), so each is taken as a function on the
  camera that is given, not defined here.
\<close>

record 'n CameraMethods =
  setPosition :: "'n Vector3 \<Rightarrow> 'n ArcRotateCamera \<Rightarrow> 'n ArcRotateCamera"
  update :: "'n ArcRotateCamera \<Rightarrow> 'n ArcRotateCamera"
  updateCache :: "'n ArcRotateCamera \<Rightarrow> 'n ArcRotateCamera"

text \<open>
  The closure queued by \<open>snapCameraIfFollowingUser\<close>. The camera it closed over is
  the one in the component's state (the ready event fires once, so there is one
  camera). It sets the flag, calls \<open>setPosition\<close>, \<open>update\<close> and \<open>updateCache\<close>
  on the camera, and clears the flag. \<open>k\<close> is the number of times Babylon
  notifies the view-matrix observers while \<open>update\<close> recomputes the view matrix,
  which is Babylon's choice.
\<close>

definition applyRemoteCameraUpdate ::
  "'n CameraMethods \<Rightarrow> nat \<Rightarrow> 'n Vector3 \<Rightarrow> ('c, 'n) LiveObjectViewer \<Rightarrow>
   ('c, 'n) LiveObjectViewer" where
  "applyRemoteCameraUpdate babylon k remoteCameraPos st =
     (let st1 = st\<lparr>isApplyingRemoteCameraUpdate := True\<rparr>;
          st2 = st1\<lparr>camera := map_option (setPosition babylon remoteCameraPos) (camera st1)\<rparr>;
          st3 = st2\<lparr>camera := map_option (update babylon) (camera st2)\<rparr>;
          st4 = (notifyViewMatrixChanged ^^ k) st3;
          st5 = st4\<lparr>camera := map_option (updateCache babylon) (camera st4)\<rparr>
      in st5\<lparr>isApplyingRemoteCameraUpdate := False\<rparr>)"

fun runBeforeRenderCallback ::
  "'n CameraMethods \<Rightarrow> nat \<Rightarrow> 'n BeforeRenderCallback \<Rightarrow> ('c, 'n) LiveObjectViewer \<Rightarrow>
   ('c, 'n) LiveObjectViewer" where
  "runBeforeRenderCallback babylon k (ApplyRemoteCameraUpdate pos) st =
     applyRemoteCameraUpdate babylon k pos st"

text \<open>Before a render the scene runs the closures queued with \<open>addOnce\<close> and drops them.\<close>

definition beforeRender ::
  "'n CameraMethods \<Rightarrow> nat \<Rightarrow> ('c, 'n) LiveObjectViewer \<Rightarrow> ('c, 'n) LiveObjectViewer" where
  "beforeRender babylon k st =
     (case sceneRef st of
        None \<Rightarrow> st
      | Some scene \<Rightarrow>
          fold (runBeforeRenderCallback babylon k) (onBeforeRenderObservable scene)
            (st\<lparr>sceneRef := Some (scene\<lparr>onBeforeRenderObservable := []\<rparr>)\<rparr>))"

text \<open>The effect that installs \<open>scene.onPointerDown\<close>, and its cleanup.\<close>

definition pointerDownEffect :: "('c, 'n) LiveObjectViewer \<Rightarrow> ('c, 'n) LiveObjectViewer" where
  "pointerDownEffect st =
     (case sceneRef st of
        None \<Rightarrow> st
      | Some scene \<Rightarrow> st\<lparr>sceneRef := Some (scene\<lparr>onPointerDown := Some HandlePointerDown\<rparr>)\<rparr>)"

definition pointerDownCleanup :: "('c, 'n) LiveObjectViewer \<Rightarrow> ('c, 'n) LiveObjectViewer" where
  "pointerDownCleanup st =
     (case sceneRef st of
        None \<Rightarrow> st
      | Some scene \<Rightarrow> st\<lparr>sceneRef := Some (scene\<lparr>onPointerDown := None\<rparr>)\<rparr>)"

text \<open>
  The effect that adds the view-matrix observer. It returns the observer its
  cleanup will remove, or nothing when there is no camera (then it returns no
  cleanup either).
\<close>

definition viewMatrixEffect ::
  "('c, 'n) LiveObjectViewer \<Rightarrow> Observer option \<times> ('c, 'n) LiveObjectViewer" where
  "viewMatrixEffect st =
     (case camera st of
        None \<Rightarrow> (None, st)
      | Some cam \<Rightarrow>
          (case observable_add (onViewMatrixChangedObservable cam) of
             (observer, obs) \<Rightarrow>
               (Some observer, st\<lparr>camera := Some (cam\<lparr>onViewMatrixChangedObservable := obs\<rparr>)\<rparr>)))"

definition viewMatrixCleanup ::
  "Observer option \<Rightarrow> ('c, 'n) LiveObjectViewer \<Rightarrow> ('c, 'n) LiveObjectViewer" where
  "viewMatrixCleanup observer st =
     (case observer of
        None \<Rightarrow> st
      | Some ob \<Rightarrow>
          st\<lparr>camera := map_option
               (\<lambda>cam. cam\<lparr>onViewMatrixChangedObservable :=
                          observer_remove ob (onViewMatrixChangedObservable cam)\<rparr>)
               (camera st)\<rparr>)"

text \<open>The callback passed to \<open>ModelViewerScene\<close> as \<open>onReadyObservable\<close>.\<close>

definition onReadyObservable ::
  "(string \<Rightarrow> 'c) \<Rightarrow> (string \<times> string) list \<Rightarrow> 'n IFollowModeState option \<Rightarrow>
   ('c, 'n) Scene \<Rightarrow> 'n ArcRotateCamera option \<Rightarrow>
   ('c, 'n) LiveObjectViewer \<Rightarrow> ('c, 'n) LiveObjectViewer" where
  "onReadyObservable FromHexString colorsMap remoteCameraState scene cam st =
     (let st1 = st\<lparr>sceneRef := Some (scene\<lparr>onPointerDown := Some HandlePointerDown\<rparr>)\<rparr>;
          st2 = applyRemoteColors FromHexString colorsMap st1;
          st3 = snapCameraIfFollowingUser remoteCameraState st2
      in st3\<lparr>camera := cam\<rparr>)"

subsection \<open>LiveObjectViewer: what it renders\<close>

datatype ButtonAppearance = primary | secondary

record 'n Button =
  appearance :: ButtonAppearance
  onClick :: "'n LiveShareCall"
  label :: string

text \<open>
  The \<open>right\<close> slot of the \<open>TopHeaderBar\<close>: four conditional buttons, in the order of
  the source. The bar itself is rendered only for a non-null \<open>remoteCameraState\<close>.
\<close>

definition topHeaderBarRight :: "FollowModeType \<Rightarrow> 'n Button list" where
  "topHeaderBarRight t =
     (if t = local \<or> t = activeFollowers
      then [\<lparr>appearance = primary, onClick = startPresenting, label = ''Spotlight me''\<rparr>]
      else [])
     @ (if t = activePresenter
        then [\<lparr>appearance = primary, onClick = stopPresenting, label = ''Stop spotlight''\<rparr>]
        else [])
     @ (if t = suspendFollowUser \<or> t = followUser
        then [\<lparr>appearance = primary, onClick = stopFollowing, label = ''Stop following''\<rparr>]
        else [])
     @ (if t = followPresenter \<or> t = suspendFollowPresenter
        then [\<lparr>appearance = secondary, onClick = startPresenting, label = ''Take control''\<rparr>]
        else [])"

definition TopHeaderBar :: "'n IFollowModeState option \<Rightarrow> 'n Button list option" where
  "TopHeaderBar remoteCameraState =
     (case remoteCameraState of
        None \<Rightarrow> None
      | Some rs \<Rightarrow> Some (topHeaderBarRight (stateType rs)))"

text \<open>
  The \<open>HexColorPicker\<close>, rendered under \<open>!!sharedColorsMap && !!selectedMaterialName\<close>.
  Its \<open>color\<close> is what \<open>colorsMap.get\<close> returns for the selected name, or
  undefined when the name is falsy.
\<close>

datatype HexColorPicker = HexColorPicker "string option"

definition renderHexColorPicker ::
  "'m option \<Rightarrow> (string \<times> string) list \<Rightarrow> ('c, 'n) LiveObjectViewer \<Rightarrow> HexColorPicker option" where
  "renderHexColorPicker sharedColorsMap colorsMap st =
     (if sharedColorsMap \<noteq> None \<and> truthy (selectedMaterialName st)
      then Some (HexColorPicker
                  (case selectedMaterialName st of
                     None \<Rightarrow> None
                   | Some name \<Rightarrow> if name = [] then None else map_of colorsMap name))
      else None)"

subsection \<open>LiveObjectViewer: the events it reacts to\<close>

text \<open>
  Everything that runs one of the component's callbacks: the viewer's ready event, a
  pointer press on the scene (Babylon calls \<open>scene.onPointerDown\<close> when it is set), a
  colour chosen in the picker, the effects that follow a change of \<open>colorsMap\<close> or
  of \<open>remoteCameraState\<close>, a view-matrix notification of the camera, the render
  loop reaching \<open>onBeforeRenderObservable\<close> (with what Babylon's camera methods
  do then), and the listener effects with their cleanups.
\<close>

datatype ('c, 'n) ViewerEvent =
    Ready "(string \<times> string) list" "'n IFollowModeState option"
          "('c, 'n) Scene" "'n ArcRotateCamera option"
  | PointerDown "'n IPointerEvent"
  | ColorChange string
  | ColorsMapChanged "(string \<times> string) list"
  | RemoteCameraStateChanged "'n IFollowModeState option"
  | ViewMatrixChanged
  | BeforeRender "'n CameraMethods" nat
  | PointerDownEffect
  | PointerDownCleanup
  | ViewMatrixEffect
  | ViewMatrixCleanup Observer

fun step ::
  "(('c, 'n) Scene \<Rightarrow> 'n \<Rightarrow> 'n \<Rightarrow> 'c PickingInfo option) \<Rightarrow>
   (string \<Rightarrow> string \<Rightarrow> Error option) \<Rightarrow> (string \<Rightarrow> 'c) \<Rightarrow>
   ('c, 'n) ViewerEvent \<Rightarrow> ('c, 'n) LiveObjectViewer \<Rightarrow> ('c, 'n) LiveObjectViewer" where
  "step pick setEntry FromHexString (Ready colorsMap rcs scene cam) st =
     onReadyObservable FromHexString colorsMap rcs scene cam st"
| "step pick setEntry FromHexString (PointerDown evt) st =
     (case sceneRef st of
        None \<Rightarrow> st
      | Some scene \<Rightarrow>
          (case onPointerDown scene of
             None \<Rightarrow> st
           | Some HandlePointerDown \<Rightarrow> handlePointerDown pick evt st))"
| "step pick setEntry FromHexString (ColorChange v) st =
     onChangeColor setEntry FromHexString v st"
| "step pick setEntry FromHexString (ColorsMapChanged colorsMap) st =
     applyRemoteColors FromHexString colorsMap st"
| "step pick setEntry FromHexString (RemoteCameraStateChanged rcs) st =
     snapCameraIfFollowingUser rcs st"
| "step pick setEntry FromHexString ViewMatrixChanged st = notifyViewMatrixChanged st"
| "step pick setEntry FromHexString (BeforeRender babylon k) st = beforeRender babylon k st"
| "step pick setEntry FromHexString PointerDownEffect st = pointerDownEffect st"
| "step pick setEntry FromHexString PointerDownCleanup st = pointerDownCleanup st"
| "step pick setEntry FromHexString ViewMatrixEffect st = snd (viewMatrixEffect st)"
| "step pick setEntry FromHexString (ViewMatrixCleanup ob) st = viewMatrixCleanup (Some ob) st"

text \<open>The state after a sequence of events, starting from the first render.\<close>

definition run ::
  "(('c, 'n) Scene \<Rightarrow> 'n \<Rightarrow> 'n \<Rightarrow> 'c PickingInfo option) \<Rightarrow>
   (string \<Rightarrow> string \<Rightarrow> Error option) \<Rightarrow> (string \<Rightarrow> 'c) \<Rightarrow>
   ('c, 'n) ViewerEvent list \<Rightarrow> ('c, 'n) LiveObjectViewer" where
  "run pick setEntry FromHexString evs = fold (step pick setEntry FromHexString) evs initialViewer"

subsection \<open>ModelViewerScene\<close>

text \<open>
  The \<open>babylon-viewer\<close> element is its list of event listeners, in the order they
  were added. \<open>addEventListener\<close> and \<open>AbortController.abort\<close> are the DOM's: a
  listener added with a \<open>signal\<close> is removed when that signal's controller aborts,
  a listener added without one is not; a \<open>once\<close> listener is removed when it is
  called. An \<open>AbortController\<close> is known by a number.
\<close>

datatype Listener = onViewerReady | onModelChange

record EventListener =
  eventType :: string
  callback :: Listener
  once :: bool
  signal :: "nat option"

definition addEventListener ::
  "string \<Rightarrow> Listener \<Rightarrow> bool \<Rightarrow> nat option \<Rightarrow> EventListener list \<Rightarrow> EventListener list" where
  "addEventListener ty cb onc sg element =
     element @ [\<lparr>eventType = ty, callback = cb, once = onc, signal = sg\<rparr>]"

definition abort :: "nat \<Rightarrow> EventListener list \<Rightarrow> EventListener list" where
  "abort abortController element = filter (\<lambda>l. signal l \<noteq> Some abortController) element"

text \<open>
  The state of one mounted \<open>ModelViewerScene\<close>: the element that \<open>viewerRef.current\<close>
  held when the effect ran, the effect's local \<open>camera\<close> variable, and the calls made
  to the \<open>onReadyObservable\<close> prop with their arguments.
\<close>

record ('c, 'n) ModelViewerScene =
  viewerElement :: "EventListener list option"
  viewerCamera :: "'n ArcRotateCamera option"
  onReadyObservableCalls :: "(('c, 'n) Scene \<times> 'n ArcRotateCamera option) list"

definition modelViewerEffect ::
  "nat \<Rightarrow> ('c, 'n) ModelViewerScene \<Rightarrow> ('c, 'n) ModelViewerScene" where
  "modelViewerEffect abortController st =
     (case viewerElement st of
        None \<Rightarrow> st
      | Some element \<Rightarrow>
          st\<lparr>viewerElement := Some
               (addEventListener ''modelchange'' onModelChange False None
                 (addEventListener ''viewerready'' onViewerReady True (Some abortController)
                    element))\<rparr>)"

definition modelViewerCleanup ::
  "nat \<Rightarrow> ('c, 'n) ModelViewerScene \<Rightarrow> ('c, 'n) ModelViewerScene" where
  "modelViewerCleanup abortController st =
     st\<lparr>viewerElement := map_option (abort abortController) (viewerElement st)\<rparr>"

text \<open>
  The events the viewer element dispatches. \<open>viewerready\<close> carries
  \<open>event.detail.scene\<close>.
\<close>

datatype ('c, 'n) ViewerElementEvent = viewerready "('c, 'n) Scene" | modelchange

fun eventTypeOf :: "('c, 'n) ViewerElementEvent \<Rightarrow> string" where
  "eventTypeOf (viewerready scene) = ''viewerready''"
| "eventTypeOf modelchange = ''modelchange''"

text \<open>
  The two listener bodies. The ready listener is only ever registered for
  \<open>viewerready\<close>; on an event without \<open>detail\<close> its first statement would throw
  and the dispatch would go on, leaving the state as it was.
\<close>

fun runListener ::
  "Listener \<Rightarrow> ('c, 'n) ViewerElementEvent \<Rightarrow> ('c, 'n) ModelViewerScene \<Rightarrow>
   ('c, 'n) ModelViewerScene" where
  "runListener onViewerReady (viewerready scene) st =
     st\<lparr>viewerCamera := activeCamera scene,
        onReadyObservableCalls := onReadyObservableCalls st @ [(scene, activeCamera scene)]\<rparr>"
| "runListener onViewerReady modelchange st = st"
| "runListener onModelChange ev st =
     st\<lparr>viewerCamera :=
          map_option (\<lambda>cam. cam\<lparr>useAutoRotationBehavior := False\<rparr>) (viewerCamera st)\<rparr>"

definition dispatchEvent ::
  "('c, 'n) ViewerElementEvent \<Rightarrow> ('c, 'n) ModelViewerScene \<Rightarrow> ('c, 'n) ModelViewerScene" where
  "dispatchEvent ev st =
     (case viewerElement st of
        None \<Rightarrow> st
      | Some element \<Rightarrow>
          fold (\<lambda>l. runListener (callback l) ev)
            (filter (\<lambda>l. eventType l = eventTypeOf ev) element)
            (st\<lparr>viewerElement := Some
                 (filter (\<lambda>l. \<not> (eventType l = eventTypeOf ev \<and> once l)) element)\<rparr>))"

text \<open>The attributes the component gives the \<open>babylon-viewer\<close> element.\<close>

record BabylonViewerAttributes =
  src :: string
  env :: string

definition renderModelViewerScene :: "string \<Rightarrow> BabylonViewerAttributes" where
  "renderModelViewerScene modelFileName =
     \<lparr>src = modelFileName,
      env = ''https://assets.babylonjs.com/environments/ulmerMuenster.env''\<rparr>"

text \<open>The \<open>modelFileName\<close> that \<open>LiveObjectViewer\<close> passes.\<close>

definition liveObjectViewerModelFileName :: string where
  "liveObjectViewerModelFileName =
     ''https://raw.githubusercontent.com/BabylonJS/Assets/master/splats/gs_Skull.splat''"

subsection \<open>Predicates used in the statements\<close>

text \<open>
  \<open>onlyRecolors keys ms ms'\<close>: the material list \<open>ms'\<close> is \<open>ms\<close> except that
  some materials have a new \<open>albedoColor\<close>, each of them a \<open>PBRMaterial\<close> whose
  name is in \<open>keys\<close> and which is the material that \<open>getMaterialByName\<close> finds
  under that name (\<open>recoloredAt\<close> says so of the material at one index).
\<close>

definition recoloredAt :: "string set \<Rightarrow> 'c Material list \<Rightarrow> 'c Material list \<Rightarrow> nat \<Rightarrow> bool" where
  "recoloredAt keys ms ms' i =
     (case ms ! i of
        PBRMaterial n c \<Rightarrow>
          (case ms' ! i of
             PBRMaterial n' c' \<Rightarrow> n' = n \<and> n \<in> keys \<and> indexOfName n ms = Some i
           | OtherMaterial n' \<Rightarrow> False)
      | OtherMaterial n \<Rightarrow> False)"

definition onlyRecolors :: "string set \<Rightarrow> 'c Material list \<Rightarrow> 'c Material list \<Rightarrow> bool" where
  "onlyRecolors keys ms ms' \<longleftrightarrow>
     length ms' = length ms \<and>
     list_all (\<lambda>i. ms' ! i = ms ! i \<or> recoloredAt keys ms ms' i) [0..<length ms]"

text \<open>
  What holds between any two events: a material is selected only once there is a
  scene, and no remote camera update is in progress.
\<close>

definition viewerInvariant :: "('c, 'n) LiveObjectViewer \<Rightarrow> bool" where
  "viewerInvariant st \<longleftrightarrow>
     (selectedMaterialName st \<noteq> None \<longrightarrow> sceneRef st \<noteq> None)
     \<and> \<not> isApplyingRemoteCameraUpdate st"

subsection \<open>Example values\<close>

text \<open>
  A camera, camera methods for it (stand-ins that store the position and do
  nothing else, unlike Babylon's, which no statement depends on), a scene with one
  \<open>PBRMaterial\<close> and one other material, a viewer that
  holds this scene, a \<open>pick\<close> that gives the same result wherever the pointer is,
  and a \<open>setEntry\<close> that returns. Colours are numbers in the examples and
  \<open>length\<close> stands in for \<open>Color3.FromHexString\<close>.
\<close>

definition exampleCamera :: "int ArcRotateCamera" where
  "exampleCamera =
     \<lparr>position = Vector3 1 2 3, useAutoRotationBehavior = True,
      onViewMatrixChangedObservable = []\<rparr>"

definition exampleSetPosition :: "int Vector3 \<Rightarrow> int ArcRotateCamera \<Rightarrow> int ArcRotateCamera" where
  "exampleSetPosition pos cam = cam\<lparr>position := pos\<rparr>"

definition exampleCameraMethods :: "int CameraMethods" where
  "exampleCameraMethods =
     \<lparr>setPosition = exampleSetPosition, update = id, updateCache = id\<rparr>"

definition exampleScene :: "(nat, int) Scene" where
  "exampleScene =
     \<lparr>materials = [PBRMaterial ''body'' 0, OtherMaterial ''glass''],
      activeCamera = Some exampleCamera, onPointerDown = None,
      onBeforeRenderObservable = []\<rparr>"

definition exampleViewer :: "(nat, int) LiveObjectViewer" where
  "exampleViewer = initialViewer\<lparr>sceneRef := Some exampleScene\<rparr>"

definition exampleHit :: "nat PickingInfo option" where
  "exampleHit =
     Some \<lparr>hit = True, pickedMesh = Some (AbstractMesh (Some (PBRMaterial ''body'' 0)))\<rparr>"

definition pickAlways ::
  "'c PickingInfo option \<Rightarrow> ('c, 'n) Scene \<Rightarrow> 'n \<Rightarrow> 'n \<Rightarrow> 'c PickingInfo option" where
  "pickAlways pickResult scene x y = pickResult"

definition setEntryReturns :: "string \<Rightarrow> string \<Rightarrow> Error option" where
  "setEntryReturns key v = None"

lemmas example_defs = exampleCamera_def exampleSetPosition_def exampleCameraMethods_def
  exampleScene_def exampleViewer_def exampleHit_def
  pickAlways_def setEntryReturns_def initialViewer_def

section \<open>Properties\<close>

subsection \<open>Picking\<close>

text \<open>
  \<open>hitMesh\<close> gives a mesh exactly when there is a pick result with \<open>hit\<close>
  set and a picked mesh; it gives none when the pick returned null, did not hit, or
  has no picked mesh.
\<close>

lemma hitMesh_Some_iff:
  "hitMesh pr = Some mesh \<longleftrightarrow> (\<exists>p. pr = Some p \<and> hit p \<and> pickedMesh p = Some mesh)"
  by (auto simp: hitMesh_def split: option.splits)

lemma hitMesh_None_iff:
  "hitMesh pr = None \<longleftrightarrow>
     (pr = None \<or> (\<exists>p. pr = Some p \<and> (\<not> hit p \<or> pickedMesh p = None)))"
  by (auto simp: hitMesh_def split: option.splits)

subsection \<open>Recolouring materials\<close>

lemma indexOfName_Some:
  "indexOfName n ms = Some i \<Longrightarrow> i < length ms \<and> material_name (ms ! i) = n"
proof (induction ms arbitrary: i)
  case Nil
  then show ?case by simp
next
  case (Cons m ms)
  show ?case
  proof (cases "material_name m = n")
    case True
    with Cons.prems show ?thesis by simp
  next
    case False
    with Cons.prems obtain j where "indexOfName n ms = Some j" and "i = Suc j"
      by auto
    with Cons.IH show ?thesis by simp
  qed
qed

lemma indexOfName_names:
  "map material_name ms = map material_name ms' \<Longrightarrow> indexOfName n ms = indexOfName n ms'"
proof (induction ms arbitrary: ms')
  case Nil
  then show ?case by simp
next
  case (Cons m ms)
  then obtain m' ms'' where "ms' = m' # ms''" by auto
  with Cons show ?case by simp
qed

lemma onlyRecolors_iff:
  "onlyRecolors keys ms ms' \<longleftrightarrow>
     length ms' = length ms \<and>
     (\<forall>i<length ms. ms' ! i \<noteq> ms ! i \<longrightarrow>
        (\<exists>n c c'. ms ! i = PBRMaterial n c \<and> ms' ! i = PBRMaterial n c'
                  \<and> n \<in> keys \<and> indexOfName n ms = Some i))"
proof -
  have "recoloredAt keys ms ms' i \<longleftrightarrow>
          (\<exists>n c c'. ms ! i = PBRMaterial n c \<and> ms' ! i = PBRMaterial n c'
                    \<and> n \<in> keys \<and> indexOfName n ms = Some i)" for i
    by (auto simp: recoloredAt_def split: Material.splits)
  then show ?thesis
    by (auto simp: onlyRecolors_def list_all_iff)
qed

lemma onlyRecolors_refl: "onlyRecolors keys ms ms"
  by (simp add: onlyRecolors_iff)

lemma onlyRecolors_names:
  assumes "onlyRecolors keys ms ms'"
  shows "map material_name ms' = map material_name ms"
proof (rule nth_equalityI)
  show "length (map material_name ms') = length (map material_name ms)"
    using assms by (simp add: onlyRecolors_iff)
next
  fix i
  assume "i < length (map material_name ms')"
  with assms have i: "i < length ms" "i < length ms'" by (simp_all add: onlyRecolors_iff)
  show "map material_name ms' ! i = map material_name ms ! i"
  proof (cases "ms' ! i = ms ! i")
    case True
    with i show ?thesis by simp
  next
    case False
    with assms i obtain n c c' where "ms ! i = PBRMaterial n c" "ms' ! i = PBRMaterial n c'"
      unfolding onlyRecolors_iff by blast
    with i show ?thesis by simp
  qed
qed

lemma onlyRecolors_trans:
  assumes a: "onlyRecolors A ms ms1" and b: "onlyRecolors B ms1 ms2"
  shows "onlyRecolors (A \<union> B) ms ms2"
proof -
  have len: "length ms1 = length ms" "length ms2 = length ms"
    using a b by (simp_all add: onlyRecolors_iff)
  have names: "map material_name ms1 = map material_name ms"
    by (rule onlyRecolors_names [OF a])
  have "\<exists>n c c'. ms ! i = PBRMaterial n c \<and> ms2 ! i = PBRMaterial n c'
                 \<and> n \<in> A \<union> B \<and> indexOfName n ms = Some i"
    if i: "i < length ms" and neq: "ms2 ! i \<noteq> ms ! i" for i
  proof (cases "ms2 ! i = ms1 ! i")
    case True
    with neq have "ms1 ! i \<noteq> ms ! i" by simp
    with a i obtain n c c' where "ms ! i = PBRMaterial n c" "ms1 ! i = PBRMaterial n c'"
        "n \<in> A" "indexOfName n ms = Some i"
      unfolding onlyRecolors_iff by blast
    with True show ?thesis by auto
  next
    case False
    with b i len obtain n c c' where n: "ms1 ! i = PBRMaterial n c" "ms2 ! i = PBRMaterial n c'"
        "n \<in> B" "indexOfName n ms1 = Some i"
      unfolding onlyRecolors_iff by auto
    have idx: "indexOfName n ms = Some i"
      using n(4) indexOfName_names [OF names, of n] by simp
    show ?thesis
    proof (cases "ms1 ! i = ms ! i")
      case True
      with n idx show ?thesis by auto
    next
      case False
      with a i obtain n' d d' where "ms ! i = PBRMaterial n' d" "ms1 ! i = PBRMaterial n' d'"
        unfolding onlyRecolors_iff by blast
      with n idx show ?thesis by auto
    qed
  qed
  with len show ?thesis by (simp add: onlyRecolors_iff)
qed

lemma recolorMaterial_onlyRecolors:
  "onlyRecolors {key} (materials scene) (materials (recolorMaterial F key v scene))"
proof (cases "getMaterialByName scene key")
  case None
  then show ?thesis by (simp add: recolorMaterial_def onlyRecolors_iff)
next
  case (Some j)
  then have j: "j < length (materials scene)" "material_name (materials scene ! j) = key"
    using indexOfName_Some [of key "materials scene" j] by (simp_all add: getMaterialByName_def)
  show ?thesis
  proof (cases "materials scene ! j")
    case (OtherMaterial n)
    with Some show ?thesis by (simp add: recolorMaterial_def onlyRecolors_iff)
  next
    case (PBRMaterial n c)
    with j have n: "n = key" by simp
    have upd: "materials (recolorMaterial F key v scene)
                 = (materials scene)[j := PBRMaterial n (F v)]"
      using Some PBRMaterial by (simp add: recolorMaterial_def)
    show ?thesis
      unfolding onlyRecolors_iff upd
      using Some PBRMaterial n j
      by (auto simp: nth_list_update getMaterialByName_def)
  qed
qed

lemma recolorMaterial_other_fields:
  "activeCamera (recolorMaterial F key v scene) = activeCamera scene
   \<and> onPointerDown (recolorMaterial F key v scene) = onPointerDown scene
   \<and> onBeforeRenderObservable (recolorMaterial F key v scene) = onBeforeRenderObservable scene"
  by (simp add: recolorMaterial_def split: option.splits Material.splits)

lemma applyRemoteColors_no_scene:
  "sceneRef st = None \<Longrightarrow> applyRemoteColors F colorsMap st = st"
  unfolding applyRemoteColors_def
  by (induction colorsMap) (simp_all add: applyRemoteColor_def)

lemma applyRemoteColors_scene:
  "sceneRef st = Some scene \<Longrightarrow>
   \<exists>scene'. applyRemoteColors F colorsMap st = st\<lparr>sceneRef := Some scene'\<rparr>
     \<and> onlyRecolors (fst ` set colorsMap) (materials scene) (materials scene')
     \<and> activeCamera scene' = activeCamera scene
     \<and> onPointerDown scene' = onPointerDown scene
     \<and> onBeforeRenderObservable scene' = onBeforeRenderObservable scene"
proof (induction colorsMap arbitrary: st scene)
  case Nil
  then have "st = st\<lparr>sceneRef := Some scene\<rparr>" by simp
  then show ?case
    unfolding applyRemoteColors_def using onlyRecolors_refl [of "{}" "materials scene"]
    by (intro exI [of _ scene]) simp
next
  case (Cons entry colorsMap)
  define scene1 where "scene1 = recolorMaterial F (fst entry) (snd entry) scene"
  define st1 where "st1 = st\<lparr>sceneRef := Some scene1\<rparr>"
  have st1: "applyRemoteColor F entry st = st1"
    using Cons.prems by (simp add: applyRemoteColor_def st1_def scene1_def)
  have "sceneRef st1 = Some scene1" by (simp add: st1_def)
  from Cons.IH [OF this] obtain scene' where
    s': "applyRemoteColors F colorsMap st1 = st1\<lparr>sceneRef := Some scene'\<rparr>"
        "onlyRecolors (fst ` set colorsMap) (materials scene1) (materials scene')"
        "activeCamera scene' = activeCamera scene1"
        "onPointerDown scene' = onPointerDown scene1"
        "onBeforeRenderObservable scene' = onBeforeRenderObservable scene1"
    by blast
  have "applyRemoteColors F (entry # colorsMap) st = st\<lparr>sceneRef := Some scene'\<rparr>"
    using s'(1) st1 by (simp add: applyRemoteColors_def st1_def)
  moreover have "onlyRecolors (fst ` set (entry # colorsMap)) (materials scene) (materials scene')"
    using onlyRecolors_trans [OF recolorMaterial_onlyRecolors s'(2) [unfolded scene1_def]]
    by simp
  ultimately show ?case
    using s'(3-5) recolorMaterial_other_fields [of F "fst entry" "snd entry" scene]
    by (auto simp: scene1_def)
qed

subsection \<open>The camera callbacks and the invariant of the viewer\<close>

lemma onCameraViewMatrixChanged_applying:
  "isApplyingRemoteCameraUpdate st \<Longrightarrow> onCameraViewMatrixChanged st = st"
  by (simp add: onCameraViewMatrixChanged_def)

lemma fold_same_fixpoint: "f st = st \<Longrightarrow> fold (\<lambda>x. f) xs st = st"
  by (induction xs) simp_all

lemma funpow_fixpoint: "f st = st \<Longrightarrow> (f ^^ k) st = st"
  by (induction k) simp_all

lemma notifyViewMatrixChanged_applying:
  "isApplyingRemoteCameraUpdate st \<Longrightarrow> notifyViewMatrixChanged st = st"
  by (simp add: notifyViewMatrixChanged_def fold_same_fixpoint
        onCameraViewMatrixChanged_applying split: option.split)

lemma applyRemoteCameraUpdate_eq:
  "applyRemoteCameraUpdate babylon k pos st =
     st\<lparr>isApplyingRemoteCameraUpdate := False,
        camera := map_option (updateCache babylon)
                    (map_option (update babylon)
                       (map_option (setPosition babylon pos) (camera st)))\<rparr>"
proof -
  define st3 where
    "st3 = st\<lparr>isApplyingRemoteCameraUpdate := True,
              camera := map_option (update babylon)
                          (map_option (setPosition babylon pos) (camera st))\<rparr>"
  have "isApplyingRemoteCameraUpdate st3" by (simp add: st3_def)
  then have "(notifyViewMatrixChanged ^^ k) st3 = st3"
    by (intro funpow_fixpoint notifyViewMatrixChanged_applying)
  then show ?thesis
    by (simp add: applyRemoteCameraUpdate_def st3_def)
qed

lemma fold_runBeforeRenderCallback:
  "liveShareCalls (fold (runBeforeRenderCallback babylon k) cbs st) = liveShareCalls st
   \<and> sceneRef (fold (runBeforeRenderCallback babylon k) cbs st) = sceneRef st
   \<and> selectedMaterialName (fold (runBeforeRenderCallback babylon k) cbs st)
       = selectedMaterialName st
   \<and> (cbs \<noteq> [] \<or> \<not> isApplyingRemoteCameraUpdate st \<longrightarrow>
        \<not> isApplyingRemoteCameraUpdate (fold (runBeforeRenderCallback babylon k) cbs st))"
proof (induction cbs arbitrary: st)
  case Nil
  show ?case by simp
next
  case (Cons cb cbs)
  obtain pos where cb: "cb = ApplyRemoteCameraUpdate pos" by (cases cb)
  have "\<not> isApplyingRemoteCameraUpdate (runBeforeRenderCallback babylon k cb st)"
    by (simp add: cb applyRemoteCameraUpdate_eq)
  with Cons [of "runBeforeRenderCallback babylon k cb st"] show ?case
    by (simp add: cb applyRemoteCameraUpdate_eq)
qed

lemma beforeRender_frame:
  "liveShareCalls (beforeRender babylon k st) = liveShareCalls st
   \<and> (sceneRef (beforeRender babylon k st) = None \<longleftrightarrow> sceneRef st = None)
   \<and> selectedMaterialName (beforeRender babylon k st) = selectedMaterialName st
   \<and> (\<not> isApplyingRemoteCameraUpdate st \<longrightarrow>
        \<not> isApplyingRemoteCameraUpdate (beforeRender babylon k st))"
  by (cases "sceneRef st") (simp_all add: beforeRender_def fold_runBeforeRenderCallback)

lemma sendCameraPos_frame:
  "sceneRef (sendCameraPos st) = sceneRef st
   \<and> selectedMaterialName (sendCameraPos st) = selectedMaterialName st
   \<and> isApplyingRemoteCameraUpdate (sendCameraPos st) = isApplyingRemoteCameraUpdate st
   \<and> camera (sendCameraPos st) = camera st"
  by (simp add: sendCameraPos_def split: option.split Vector3.split)

lemma onCameraViewMatrixChanged_frame:
  "sceneRef (onCameraViewMatrixChanged st) = sceneRef st
   \<and> selectedMaterialName (onCameraViewMatrixChanged st) = selectedMaterialName st
   \<and> isApplyingRemoteCameraUpdate (onCameraViewMatrixChanged st) = isApplyingRemoteCameraUpdate st
   \<and> camera (onCameraViewMatrixChanged st) = camera st"
  by (simp add: onCameraViewMatrixChanged_def Let_def sendCameraPos_frame)

lemma fold_onCameraViewMatrixChanged_frame:
  "sceneRef (fold (\<lambda>ob. onCameraViewMatrixChanged) obs st) = sceneRef st
   \<and> selectedMaterialName (fold (\<lambda>ob. onCameraViewMatrixChanged) obs st) = selectedMaterialName st
   \<and> isApplyingRemoteCameraUpdate (fold (\<lambda>ob. onCameraViewMatrixChanged) obs st)
       = isApplyingRemoteCameraUpdate st"
  by (induction obs arbitrary: st) (simp_all add: onCameraViewMatrixChanged_frame)

lemma notifyViewMatrixChanged_frame:
  "sceneRef (notifyViewMatrixChanged st) = sceneRef st
   \<and> selectedMaterialName (notifyViewMatrixChanged st) = selectedMaterialName st
   \<and> isApplyingRemoteCameraUpdate (notifyViewMatrixChanged st) = isApplyingRemoteCameraUpdate st"
  by (simp add: notifyViewMatrixChanged_def fold_onCameraViewMatrixChanged_frame
        split: option.split)

lemma snapCameraIfFollowingUser_frame:
  "(sceneRef (snapCameraIfFollowingUser rcs st) = None \<longleftrightarrow> sceneRef st = None)
   \<and> selectedMaterialName (snapCameraIfFollowingUser rcs st) = selectedMaterialName st
   \<and> isApplyingRemoteCameraUpdate (snapCameraIfFollowingUser rcs st)
       = isApplyingRemoteCameraUpdate st
   \<and> liveShareCalls (snapCameraIfFollowingUser rcs st) = liveShareCalls st"
  by (simp add: snapCameraIfFollowingUser_def Let_def
        split: option.split CameraPosition.split)

lemma applyRemoteColors_frame:
  "(sceneRef (applyRemoteColors F colorsMap st) = None \<longleftrightarrow> sceneRef st = None)
   \<and> selectedMaterialName (applyRemoteColors F colorsMap st) = selectedMaterialName st
   \<and> isApplyingRemoteCameraUpdate (applyRemoteColors F colorsMap st)
       = isApplyingRemoteCameraUpdate st
   \<and> liveShareCalls (applyRemoteColors F colorsMap st) = liveShareCalls st"
proof (cases "sceneRef st")
  case None
  then show ?thesis by (simp add: applyRemoteColors_no_scene)
next
  case (Some scene)
  from applyRemoteColors_scene [OF this, of F colorsMap] Some show ?thesis by auto
qed

lemma onChangeColor_frame:
  "(sceneRef (onChangeColor setEntry F v st) = None \<longleftrightarrow> sceneRef st = None)
   \<and> selectedMaterialName (onChangeColor setEntry F v st) = selectedMaterialName st
   \<and> isApplyingRemoteCameraUpdate (onChangeColor setEntry F v st)
       = isApplyingRemoteCameraUpdate st"
  by (simp add: onChangeColor_def Let_def split: option.split)

lemma handlePointerDown_frame_fields:
  "sceneRef (handlePointerDown pick evt st) = sceneRef st
   \<and> isApplyingRemoteCameraUpdate (handlePointerDown pick evt st)
       = isApplyingRemoteCameraUpdate st
   \<and> liveShareCalls (handlePointerDown pick evt st) = liveShareCalls st
   \<and> (sceneRef st = None \<longrightarrow>
        selectedMaterialName (handlePointerDown pick evt st) = selectedMaterialName st)"
  by (simp add: handlePointerDown_def split: option.split)

lemma step_invariant:
  assumes "viewerInvariant st"
  shows "viewerInvariant (step pick setEntry F ev st)"
proof (cases ev)
  case (Ready colorsMap rcs scene cam)
  with assms show ?thesis
    using snapCameraIfFollowingUser_frame
            [of rcs "applyRemoteColors F colorsMap
                       (st\<lparr>sceneRef := Some (scene\<lparr>onPointerDown := Some HandlePointerDown\<rparr>)\<rparr>)"]
          applyRemoteColors_frame
            [of F colorsMap "st\<lparr>sceneRef := Some (scene\<lparr>onPointerDown := Some HandlePointerDown\<rparr>)\<rparr>"]
    by (simp add: viewerInvariant_def onReadyObservable_def Let_def)
next
  case (PointerDown evt)
  with assms show ?thesis
    using handlePointerDown_frame_fields [of pick evt st]
    by (auto simp: viewerInvariant_def split: option.split PointerHandler.split)
next
  case (ColorChange v)
  with assms show ?thesis
    using onChangeColor_frame [of setEntry F v st] by (simp add: viewerInvariant_def)
next
  case (ColorsMapChanged colorsMap)
  with assms show ?thesis
    using applyRemoteColors_frame [of F colorsMap st] by (simp add: viewerInvariant_def)
next
  case (RemoteCameraStateChanged rcs)
  with assms show ?thesis
    using snapCameraIfFollowingUser_frame [of rcs st] by (simp add: viewerInvariant_def)
next
  case ViewMatrixChanged
  with assms show ?thesis
    using notifyViewMatrixChanged_frame [of st] by (simp add: viewerInvariant_def)
next
  case (BeforeRender babylon k)
  with assms show ?thesis
    using beforeRender_frame [of babylon k st] by (simp add: viewerInvariant_def)
next
  case PointerDownEffect
  with assms show ?thesis
    by (auto simp: viewerInvariant_def pointerDownEffect_def split: option.split)
next
  case PointerDownCleanup
  with assms show ?thesis
    by (auto simp: viewerInvariant_def pointerDownCleanup_def split: option.split)
next
  case ViewMatrixEffect
  with assms show ?thesis
    by (auto simp: viewerInvariant_def viewMatrixEffect_def split: option.split prod.split)
next
  case (ViewMatrixCleanup ob)
  with assms show ?thesis
    by (auto simp: viewerInvariant_def viewMatrixCleanup_def)
qed

lemma fold_step_invariant:
  "viewerInvariant st \<Longrightarrow> viewerInvariant (fold (step pick setEntry F) evs st)"
  by (induction evs arbitrary: st) (simp_all add: step_invariant)

lemma run_invariant: "viewerInvariant (run pick setEntry F evs)"
  unfolding run_def
  by (rule fold_step_invariant) (simp add: viewerInvariant_def initialViewer_def)

subsection \<open>Listeners and their cleanups\<close>

text \<open>
  The view-matrix effect followed by its cleanup restores the state; the pointer
  effect followed by its cleanup leaves \<open>scene.onPointerDown\<close> unset; the effect
  of \<open>ModelViewerScene\<close> followed by its cleanup leaves the element with its
  listeners of other controllers and with the \<open>modelchange\<close> listener.
\<close>

lemma fresh_observer_new: "fresh_observer obs \<notin> set obs"
proof -
  have "observer_id ob \<le> foldr max (map observer_id obs) 0" if "ob \<in> set obs" for ob
    using that by (induction obs) auto
  then show ?thesis by (fastforce simp: fresh_observer_def)
qed

lemma observer_remove_add:
  "observable_add obs = (ob, obs') \<Longrightarrow> observer_remove ob obs' = obs"
  using fresh_observer_new [of obs]
  by (auto simp: observable_add_def observer_remove_def filter_id_conv)

lemma viewMatrix_observer_removed:
  "viewMatrixEffect st = (ob, st') \<Longrightarrow> viewMatrixCleanup ob st' = st"
proof (cases "camera st")
  case None
  assume "viewMatrixEffect st = (ob, st')"
  with None show ?thesis by (simp add: viewMatrixEffect_def viewMatrixCleanup_def)
next
  case (Some cam)
  assume eff: "viewMatrixEffect st = (ob, st')"
  obtain o1 obs where add: "observable_add (onViewMatrixChangedObservable cam) = (o1, obs)"
    by (cases "observable_add (onViewMatrixChangedObservable cam)")
  with eff Some have "ob = Some o1"
    and st': "st' = st\<lparr>camera := Some (cam\<lparr>onViewMatrixChangedObservable := obs\<rparr>)\<rparr>"
    by (simp_all add: viewMatrixEffect_def)
  with observer_remove_add [OF add] Some show ?thesis
    by (simp add: viewMatrixCleanup_def)
qed

lemma pointerDown_handler_removed:
  "sceneRef (pointerDownCleanup (pointerDownEffect st)) = Some scene \<Longrightarrow>
   onPointerDown scene = None"
  by (auto simp: pointerDownCleanup_def pointerDownEffect_def split: option.splits)

lemma modelViewer_effect_cleanup:
  "viewerElement st = Some element \<Longrightarrow>
   viewerElement (modelViewerCleanup k (modelViewerEffect k st))
     = Some (abort k element
             @ [\<lparr>eventType = ''modelchange'', callback = onModelChange, once = False,
                  signal = None\<rparr>])"
  by (simp add: modelViewerCleanup_def modelViewerEffect_def addEventListener_def abort_def)

subsection \<open>The claims\<close>

text \<open>
  C1, as amended. A pointer press whose pick result has \<open>hit\<close> set and a picked
  mesh with a material makes that material's name the selected material name. The
  \<open>HexColorPicker\<close> is rendered exactly when the shared colours map exists and the
  selected material name is a non-empty string: the test is JavaScript truthiness,
  under which both null and the empty string hide the picker. So a press on a mesh
  whose material has a non-empty name shows the colour picker, with the colour the
  map holds for that name, whenever the shared map exists.
\<close>

theorem click_selects_material:
  "(sceneRef st = Some scene \<and> pick scene (clientX evt) (clientY evt) = Some p \<and> hit p
      \<and> pickedMesh p = Some mesh \<and> mesh_material mesh = Some m \<longrightarrow>
        selectedMaterialName (handlePointerDown pick evt st) = Some (material_name m))
   \<and> (renderHexColorPicker sharedColorsMap colorsMap st \<noteq> None \<longleftrightarrow>
        sharedColorsMap \<noteq> None
        \<and> (\<exists>name. selectedMaterialName st = Some name \<and> name \<noteq> []))
   \<and> (sceneRef st = Some scene \<and> pick scene (clientX evt) (clientY evt) = Some p \<and> hit p
      \<and> pickedMesh p = Some mesh \<and> mesh_material mesh = Some m \<and> material_name m \<noteq> []
      \<and> sharedColorsMap \<noteq> None \<longrightarrow>
        renderHexColorPicker sharedColorsMap colorsMap (handlePointerDown pick evt st)
          = Some (HexColorPicker (map_of colorsMap (material_name m))))"
  by (auto simp: handlePointerDown_def renderHexColorPicker_def truthy_def hitMesh_def
           split: option.splits)

theorem click_selects_material_witness:
  "selectedMaterialName
     (handlePointerDown (pickAlways exampleHit) \<lparr>clientX = 10, clientY = 20\<rparr> exampleViewer)
     = Some ''body''
   \<and> renderHexColorPicker (Some ()) [(''body'', ''#ff0000'')]
       (handlePointerDown (pickAlways exampleHit) \<lparr>clientX = 10, clientY = 20\<rparr> exampleViewer)
       = Some (HexColorPicker (Some ''#ff0000''))
   \<and> renderHexColorPicker (Some ()) [(''body'', ''#ff0000'')] exampleViewer = None"
  using click_selects_material
    [where st = exampleViewer and scene = exampleScene and pick = "pickAlways exampleHit"
       and evt = "\<lparr>clientX = 10, clientY = 20\<rparr>"
       and p = "\<lparr>hit = True, pickedMesh = Some (AbstractMesh (Some (PBRMaterial ''body'' 0)))\<rparr>"
       and mesh = "AbstractMesh (Some (PBRMaterial ''body'' 0))"
       and m = "PBRMaterial ''body'' 0" and sharedColorsMap = "Some ()"
       and colorsMap = "[(''body'', ''#ff0000'')]"]
  by (simp add: example_defs)

text \<open>
  The claim as first stated, that the picker is rendered whenever the shared map
  exists and the selected material name is non-null, fails after a press on a mesh
  whose material is named by the empty string: the selected name is then non-null,
  the shared map exists, and no picker is rendered.
\<close>

theorem picker_hidden_for_empty_name_counterexample:
  "selectedMaterialName
     (handlePointerDown
        (pickAlways (Some \<lparr>hit = True,
                           pickedMesh = Some (AbstractMesh (Some (OtherMaterial '''')))\<rparr>))
        \<lparr>clientX = 10, clientY = 20\<rparr>
        (initialViewer\<lparr>sceneRef := Some (exampleScene\<lparr>materials := [OtherMaterial '''']\<rparr>)\<rparr>))
     \<noteq> None
   \<and> renderHexColorPicker (Some ()) []
       (handlePointerDown
          (pickAlways (Some \<lparr>hit = True,
                             pickedMesh = Some (AbstractMesh (Some (OtherMaterial '''')))\<rparr>))
          \<lparr>clientX = 10, clientY = 20\<rparr>
          (initialViewer\<lparr>sceneRef := Some (exampleScene\<lparr>materials := [OtherMaterial '''']\<rparr>)\<rparr>))
       = None"
  by (simp add: handlePointerDown_def hitMesh_def renderHexColorPicker_def truthy_def
        example_defs)

text \<open>
  C2. \<open>LoadingErrorWrapper\<close> shows the join error's message as text whenever a join
  error is present; with no join error and \<open>joined\<close> false it shows the spinner; and
  it renders its children exactly when \<open>joined\<close> is true and there is no join error.
\<close>

theorem LoadingErrorWrapper_cases:
  "(joinError ctx = Some e \<longrightarrow> LoadingErrorWrapper ctx children = Text (message e))
   \<and> (joinError ctx = None \<and> \<not> joined ctx \<longrightarrow>
        LoadingErrorWrapper ctx children = FlexColumnSpinner)
   \<and> (LoadingErrorWrapper ctx children = Fragment children \<longleftrightarrow>
        joined ctx \<and> joinError ctx = None)"
  by (simp add: LoadingErrorWrapper_def split: option.split)

theorem LoadingErrorWrapper_cases_witness:
  "LoadingErrorWrapper \<lparr>joined = True, joinError = Some (Error ''denied'')\<rparr> (0::nat)
     = Text ''denied''
   \<and> LoadingErrorWrapper \<lparr>joined = False, joinError = None\<rparr> (0::nat) = FlexColumnSpinner
   \<and> LoadingErrorWrapper \<lparr>joined = True, joinError = None\<rparr> (0::nat) = Fragment 0"
  using LoadingErrorWrapper_cases
          [of "\<lparr>joined = True, joinError = Some (Error ''denied'')\<rparr>" "Error ''denied''" "0::nat"]
        LoadingErrorWrapper_cases [of "\<lparr>joined = False, joinError = None\<rparr>" _ "0::nat"]
        LoadingErrorWrapper_cases [of "\<lparr>joined = True, joinError = None\<rparr>" _ "0::nat"]
  by simp

text \<open>
  C3. The operations check the scene, the camera and the named material before using
  them. \<open>onChangeColor\<close> returns with the state as it was when the selected
  material name or the scene is null, and otherwise changes no material except a
  \<open>PBRMaterial\<close> found under the selected name; \<open>sendCameraPos\<close> returns when the
  camera is null; \<open>snapCameraIfFollowingUser\<close> returns when the remote state, its
  camera position or the camera is null; \<open>applyRemoteColors\<close> does nothing without
  a scene, skips an entry whose material is absent or not a \<open>PBRMaterial\<close>, and
  over the whole map changes nothing but \<open>PBRMaterial\<close>s found under a key of the
  map.
\<close>

theorem absent_references_are_skipped:
  "((selectedMaterialName st = None \<or> sceneRef st = None) \<longrightarrow>
      onChangeColor setEntry F v st = st)
   \<and> (sceneRef st = Some scene \<longrightarrow>
        (\<exists>scene'. sceneRef (onChangeColor setEntry F v st) = Some scene'
           \<and> onlyRecolors (set_option (selectedMaterialName st))
                (materials scene) (materials scene')))
   \<and> (camera st = None \<longrightarrow> sendCameraPos st = st)
   \<and> ((rcs = None \<or> (\<exists>rs. rcs = Some rs \<and> cameraPosition (stateValue rs) = None)
        \<or> camera st = None) \<longrightarrow> snapCameraIfFollowingUser rcs st = st)
   \<and> (sceneRef st = None \<longrightarrow> applyRemoteColors F colorsMap st = st)
   \<and> (sceneRef st = Some scene
        \<and> (getMaterialByName scene key = None
           \<or> (\<exists>i n. getMaterialByName scene key = Some i
                 \<and> materials scene ! i = OtherMaterial n)) \<longrightarrow>
        applyRemoteColor F (key, v) st = st)
   \<and> (sceneRef st = Some scene \<longrightarrow>
        (\<exists>scene'. applyRemoteColors F colorsMap st = st\<lparr>sceneRef := Some scene'\<rparr>
           \<and> onlyRecolors (fst ` set colorsMap) (materials scene) (materials scene')))"
proof -
  have c1: "onChangeColor setEntry F v st = st"
    if "selectedMaterialName st = None \<or> sceneRef st = None"
    using that by (auto simp: onChangeColor_def split: option.split)
  have c2: "\<exists>scene'. sceneRef (onChangeColor setEntry F v st) = Some scene'
              \<and> onlyRecolors (set_option (selectedMaterialName st))
                   (materials scene) (materials scene')"
    if "sceneRef st = Some scene"
    using that recolorMaterial_onlyRecolors [of _ scene F v]
          onlyRecolors_refl [of _ "materials scene"]
    by (auto simp: onChangeColor_def Let_def split: option.split)
  have c3: "sendCameraPos st = st" if "camera st = None"
    using that by (simp add: sendCameraPos_def)
  have c4: "snapCameraIfFollowingUser rcs st = st"
    if "rcs = None \<or> (\<exists>rs. rcs = Some rs \<and> cameraPosition (stateValue rs) = None)
        \<or> camera st = None"
    using that
    by (auto simp: snapCameraIfFollowingUser_def split: option.split CameraPosition.split)
  have c6: "applyRemoteColor F (key, v) st = st"
    if "sceneRef st = Some scene"
       "getMaterialByName scene key = None
        \<or> (\<exists>i n. getMaterialByName scene key = Some i \<and> materials scene ! i = OtherMaterial n)"
    using that by (auto simp: applyRemoteColor_def recolorMaterial_def)
  have c7: "\<exists>scene'. applyRemoteColors F colorsMap st = st\<lparr>sceneRef := Some scene'\<rparr>
              \<and> onlyRecolors (fst ` set colorsMap) (materials scene) (materials scene')"
    if "sceneRef st = Some scene"
    using applyRemoteColors_scene [OF that, of F colorsMap] by blast
  from c1 c2 c3 c4 c6 c7 applyRemoteColors_no_scene [of st F colorsMap]
  show ?thesis by blast
qed

theorem absent_references_are_skipped_witness:
  "onChangeColor setEntryReturns length ''#ff0000'' (initialViewer :: (nat, int) LiveObjectViewer)
     = initialViewer
   \<and> sendCameraPos (initialViewer :: (nat, int) LiveObjectViewer) = initialViewer
   \<and> snapCameraIfFollowingUser None (initialViewer :: (nat, int) LiveObjectViewer)
       = initialViewer
   \<and> applyRemoteColors length [(''body'', ''#ff0000'')]
       (initialViewer :: (nat, int) LiveObjectViewer) = initialViewer
   \<and> applyRemoteColor length (''glass'', ''#ff0000'') exampleViewer = exampleViewer
   \<and> applyRemoteColor length (''wheel'', ''#ff0000'') exampleViewer = exampleViewer
   \<and> applyRemoteColors length [(''body'', ''#ff0000''), (''glass'', ''#00ff00'')] exampleViewer
       = exampleViewer\<lparr>sceneRef := Some
           (exampleScene\<lparr>materials := [PBRMaterial ''body'' 7, OtherMaterial ''glass'']\<rparr>)\<rparr>
   \<and> onlyRecolors {''body'', ''glass''} (materials exampleScene)
         [PBRMaterial ''body'' 7, OtherMaterial ''glass'']"
  using absent_references_are_skipped
    [where st = "initialViewer :: (nat, int) LiveObjectViewer" and setEntry = setEntryReturns
       and F = length and v = "''#ff0000''" and rcs = None
       and colorsMap = "[(''body'', ''#ff0000'')]"]
    absent_references_are_skipped
    [where st = exampleViewer and scene = exampleScene and F = length and v = "''#ff0000''"
       and key = "''glass''"
       and colorsMap = "[(''body'', ''#ff0000''), (''glass'', ''#00ff00'')]"]
    absent_references_are_skipped
    [where st = exampleViewer and scene = exampleScene and F = length and v = "''#ff0000''"
       and key = "''wheel''"
       and colorsMap = "[(''body'', ''#ff0000''), (''glass'', ''#00ff00'')]"]
  by (simp add: example_defs getMaterialByName_def applyRemoteColors_def applyRemoteColor_def
        recolorMaterial_def onlyRecolors_def recoloredAt_def upt_rec)

text \<open>
  C4. The claim that every listener is removed by its cleanup fails for the
  \<open>modelchange\<close> listener: it is added without the abort signal that the
  \<open>viewerready\<close> listener beside it is given, so after the effect and its cleanup
  on an element that had no listeners the \<open>modelchange\<close> listener is still
  registered.
\<close>

theorem modelchange_listener_survives_cleanup:
  "viewerElement
     (modelViewerCleanup 1
        (modelViewerEffect 1
           \<lparr>viewerElement = Some [], viewerCamera = None :: int ArcRotateCamera option,
            onReadyObservableCalls = [] :: ((nat, int) Scene \<times> int ArcRotateCamera option) list\<rparr>))
     = Some [\<lparr>eventType = ''modelchange'', callback = onModelChange, once = False,
              signal = None\<rparr>]"
  by (simp add: modelViewerCleanup_def modelViewerEffect_def addEventListener_def abort_def)

text \<open>
  C5. \<open>ModelViewerScene\<close> gives the viewer element its \<open>modelFileName\<close> prop as
  \<open>src\<close> and a fixed environment URL as \<open>env\<close>; and once the effect has run on
  an element with no earlier ready listener, the viewer's ready event calls
  \<open>onReadyObservable\<close> once, with the scene of the event and that scene's active
  camera.
\<close>

theorem ready_event_reaches_onReadyObservable:
  "src (renderModelViewerScene modelFileName) = modelFileName
   \<and> env (renderModelViewerScene modelFileName)
       = ''https://assets.babylonjs.com/environments/ulmerMuenster.env''
   \<and> (viewerElement st = Some element
        \<and> (\<forall>l \<in> set element. eventType l \<noteq> ''viewerready'') \<longrightarrow>
          onReadyObservableCalls (dispatchEvent (viewerready scene) (modelViewerEffect k st))
            = onReadyObservableCalls st @ [(scene, activeCamera scene)])"
proof -
  have "filter (\<lambda>l. eventType l = ''viewerready'') element = []"
    if "\<forall>l \<in> set element. eventType l \<noteq> ''viewerready''"
    using that by (simp add: filter_empty_conv)
  then show ?thesis
    by (auto simp: renderModelViewerScene_def dispatchEvent_def modelViewerEffect_def
          addEventListener_def)
qed

theorem ready_event_reaches_onReadyObservable_witness:
  "src (renderModelViewerScene liveObjectViewerModelFileName)
     = ''https://raw.githubusercontent.com/BabylonJS/Assets/master/splats/gs_Skull.splat''
   \<and> onReadyObservableCalls
     (dispatchEvent (viewerready exampleScene)
        (modelViewerEffect 1
           \<lparr>viewerElement = Some [], viewerCamera = None, onReadyObservableCalls = []\<rparr>))
     = [(exampleScene, Some exampleCamera)]"
  using ready_event_reaches_onReadyObservable
    [where st = "\<lparr>viewerElement = Some [], viewerCamera = None, onReadyObservableCalls = []\<rparr>"
       and element = "[]" and scene = exampleScene and k = 1
       and modelFileName = liveObjectViewerModelFileName]
  by (simp add: example_defs liveObjectViewerModelFileName_def)

text \<open>
  C6. In every state the viewer can reach, when the colour picker is on screen (so
  that a colour can be picked, a material being selected) \<open>onChangeColor\<close> calls
  \<open>setMaterialColor\<close> with the selected name and the picked colour; and when the
  camera's view matrix changes, \<open>onCameraViewMatrixChanged\<close> calls
  \<open>updateUserCameraState\<close> with the camera's position \<open>{x, y, z}\<close> and then
  \<open>beginSuspension\<close>, which is also what a notification of the one observer that
  the effect registered does.
\<close>

theorem local_updates_are_pushed:
  "(renderHexColorPicker sharedColorsMap colorsMap (run pick setEntry F evs) \<noteq> None \<longrightarrow>
      (\<exists>name. selectedMaterialName (run pick setEntry F evs) = Some name
         \<and> liveShareCalls (onChangeColor setEntry F v (run pick setEntry F evs))
             = liveShareCalls (run pick setEntry F evs) @ [setMaterialColor name v]))
   \<and> (camera (run pick setEntry F evs) = Some cam \<and> position cam = Vector3 x y z \<longrightarrow>
        liveShareCalls (onCameraViewMatrixChanged (run pick setEntry F evs))
          = liveShareCalls (run pick setEntry F evs)
            @ [updateUserCameraState \<lparr>cameraPosition = Some (CameraPosition x y z)\<rparr>,
               beginSuspension])
   \<and> (camera (run pick setEntry F evs) = Some cam \<and> position cam = Vector3 x y z
        \<and> onViewMatrixChangedObservable cam = [ob] \<longrightarrow>
        liveShareCalls (step pick setEntry F ViewMatrixChanged (run pick setEntry F evs))
          = liveShareCalls (run pick setEntry F evs)
            @ [updateUserCameraState \<lparr>cameraPosition = Some (CameraPosition x y z)\<rparr>,
               beginSuspension])"
proof -
  define st where "st = run pick setEntry F evs"
  have inv: "viewerInvariant st" unfolding st_def by (rule run_invariant)
  have picked: "\<exists>name. selectedMaterialName st = Some name
          \<and> liveShareCalls (onChangeColor setEntry F v st)
              = liveShareCalls st @ [setMaterialColor name v]"
    if "renderHexColorPicker sharedColorsMap colorsMap st \<noteq> None"
  proof -
    from that have "truthy (selectedMaterialName st)"
      by (simp add: renderHexColorPicker_def split: if_splits)
    then obtain name where name: "selectedMaterialName st = Some name" "name \<noteq> []"
      by (auto simp: truthy_def split: option.splits)
    with inv obtain scene where "sceneRef st = Some scene"
      by (auto simp: viewerInvariant_def)
    with name show ?thesis
      by (simp add: onChangeColor_def Let_def split: option.split)
  qed
  have moved: "liveShareCalls (onCameraViewMatrixChanged st)
          = liveShareCalls st
            @ [updateUserCameraState \<lparr>cameraPosition = Some (CameraPosition x y z)\<rparr>,
               beginSuspension]"
    if "camera st = Some cam" "position cam = Vector3 x y z"
    using that inv
    by (simp add: onCameraViewMatrixChanged_def sendCameraPos_def viewerInvariant_def Let_def)
  have notified: "step pick setEntry F ViewMatrixChanged st = onCameraViewMatrixChanged st"
    if "camera st = Some cam" "onViewMatrixChangedObservable cam = [ob]"
    using that by (simp add: notifyViewMatrixChanged_def)
  from picked moved notified show ?thesis unfolding st_def by metis
qed

theorem local_updates_are_pushed_witness:
  "liveShareCalls
     (onChangeColor setEntryReturns length ''#00ff00''
        (run (pickAlways exampleHit) setEntryReturns length
           [Ready [] None exampleScene (Some exampleCamera),
            PointerDown \<lparr>clientX = 10, clientY = 20\<rparr>, ViewMatrixEffect]))
     = [setMaterialColor ''body'' ''#00ff00'']
   \<and> liveShareCalls
       (step (pickAlways exampleHit) setEntryReturns length ViewMatrixChanged
          (run (pickAlways exampleHit) setEntryReturns length
             [Ready [] None exampleScene (Some exampleCamera),
              PointerDown \<lparr>clientX = 10, clientY = 20\<rparr>, ViewMatrixEffect]))
       = [updateUserCameraState \<lparr>cameraPosition = Some (CameraPosition 1 2 3)\<rparr>,
          beginSuspension]"
  using local_updates_are_pushed
    [where pick = "pickAlways exampleHit" and setEntry = setEntryReturns and F = length
       and evs = "[Ready [] None exampleScene (Some exampleCamera),
                   PointerDown \<lparr>clientX = 10, clientY = 20\<rparr>, ViewMatrixEffect]"
       and v = "''#00ff00''" and sharedColorsMap = "Some ()" and colorsMap = "[]"
       and cam = "exampleCamera\<lparr>onViewMatrixChangedObservable := [Observer 1]\<rparr>"
       and x = 1 and y = 2 and z = 3 and ob = "Observer 1"]
  by (simp add: run_def onReadyObservable_def applyRemoteColors_def
        snapCameraIfFollowingUser_def handlePointerDown_def hitMesh_def truthy_def
        renderHexColorPicker_def viewMatrixEffect_def observable_add_def fresh_observer_def
        example_defs)

text \<open>
  C8. While \<open>isApplyingRemoteCameraUpdate\<close> is set, the view-matrix callback and
  a notification of the observers change nothing, so the callback makes an SDK call
  only when the flag is clear. The closure that applies a remote camera position
  sets the flag around the camera calls: whatever Babylon's camera methods do and
  however often Babylon notifies the observers inside it, it makes no SDK call and
  leaves the flag clear. So when \<open>snapCameraIfFollowingUser\<close> has queued the
  closure and the scene runs it before the next render, no SDK call is made.
\<close>

theorem no_echo_of_remote_camera_update:
  "(isApplyingRemoteCameraUpdate st \<longrightarrow>
      onCameraViewMatrixChanged st = st \<and> notifyViewMatrixChanged st = st)
   \<and> (liveShareCalls (onCameraViewMatrixChanged st) \<noteq> liveShareCalls st \<longrightarrow>
        \<not> isApplyingRemoteCameraUpdate st)
   \<and> liveShareCalls (applyRemoteCameraUpdate babylon k pos st) = liveShareCalls st
   \<and> \<not> isApplyingRemoteCameraUpdate (applyRemoteCameraUpdate babylon k pos st)
   \<and> liveShareCalls (beforeRender babylon k (snapCameraIfFollowingUser rcs st))
       = liveShareCalls st"
  using onCameraViewMatrixChanged_applying [of st] notifyViewMatrixChanged_applying [of st]
        beforeRender_frame [of babylon k "snapCameraIfFollowingUser rcs st"]
        snapCameraIfFollowingUser_frame [of rcs st]
  by (auto simp: applyRemoteCameraUpdate_eq)

theorem no_echo_of_remote_camera_update_witness:
  "onCameraViewMatrixChanged
     (exampleViewer\<lparr>camera := Some exampleCamera, isApplyingRemoteCameraUpdate := True\<rparr>)
     = exampleViewer\<lparr>camera := Some exampleCamera, isApplyingRemoteCameraUpdate := True\<rparr>
   \<and> liveShareCalls
       (onCameraViewMatrixChanged (exampleViewer\<lparr>camera := Some exampleCamera\<rparr>)) \<noteq> []
   \<and> liveShareCalls
       (beforeRender exampleCameraMethods 2
          (snapCameraIfFollowingUser
             (Some \<lparr>stateType = followPresenter,
                    stateValue = \<lparr>cameraPosition = Some (CameraPosition 7 8 9)\<rparr>,
                    followingUserId = ''u1'', isLocalValue = False\<rparr>)
             (exampleViewer\<lparr>camera := Some (exampleCamera\<lparr>onViewMatrixChangedObservable :=
                                             [Observer 1]\<rparr>)\<rparr>))) = []"
  using no_echo_of_remote_camera_update
    [where st = "exampleViewer\<lparr>camera := Some exampleCamera,
                               isApplyingRemoteCameraUpdate := True\<rparr>"]
    no_echo_of_remote_camera_update
    [where st = "exampleViewer\<lparr>camera := Some exampleCamera\<rparr>"]
    no_echo_of_remote_camera_update
    [where st = "exampleViewer\<lparr>camera := Some (exampleCamera\<lparr>onViewMatrixChangedObservable :=
                                          [Observer 1]\<rparr>)\<rparr>"
       and babylon = exampleCameraMethods and k = 2
       and rcs = "Some \<lparr>stateType = followPresenter,
                    stateValue = \<lparr>cameraPosition = Some (CameraPosition 7 8 9)\<rparr>,
                    followingUserId = ''u1'', isLocalValue = False\<rparr>"]
  by (simp add: example_defs onCameraViewMatrixChanged_def sendCameraPos_def)

text \<open>
  C9. \<open>handlePointerDown\<close> leaves the state as it was when the pick hits a mesh
  without a material. It sets a non-null selection to null only when no mesh was
  picked and the selection is truthy, and then changes nothing else; when no mesh
  was picked and nothing is selected it leaves the state as it was.
\<close>

theorem handlePointerDown_frame:
  "(sceneRef st = Some scene \<and> hitMesh (pick scene (clientX evt) (clientY evt)) = Some mesh
      \<and> mesh_material mesh = None \<longrightarrow> handlePointerDown pick evt st = st)
   \<and> (selectedMaterialName st \<noteq> None
        \<and> selectedMaterialName (handlePointerDown pick evt st) = None \<longrightarrow>
          (\<exists>sc. sceneRef st = Some sc \<and> hitMesh (pick sc (clientX evt) (clientY evt)) = None)
          \<and> truthy (selectedMaterialName st))
   \<and> (sceneRef st = Some scene \<and> hitMesh (pick scene (clientX evt) (clientY evt)) = None
        \<and> truthy (selectedMaterialName st) \<longrightarrow>
          handlePointerDown pick evt st = st\<lparr>selectedMaterialName := None\<rparr>)
   \<and> (sceneRef st = Some scene \<and> hitMesh (pick scene (clientX evt) (clientY evt)) = None
        \<and> selectedMaterialName st = None \<longrightarrow> handlePointerDown pick evt st = st)"
  by (auto simp: handlePointerDown_def truthy_def split: option.splits)

theorem handlePointerDown_frame_witness:
  "handlePointerDown (pickAlways (Some \<lparr>hit = True, pickedMesh = Some (AbstractMesh None)\<rparr>))
     \<lparr>clientX = 10, clientY = 20\<rparr> (exampleViewer\<lparr>selectedMaterialName := Some ''body''\<rparr>)
     = exampleViewer\<lparr>selectedMaterialName := Some ''body''\<rparr>
   \<and> handlePointerDown (pickAlways (Some \<lparr>hit = False, pickedMesh = None\<rparr>))
       \<lparr>clientX = 10, clientY = 20\<rparr> (exampleViewer\<lparr>selectedMaterialName := Some ''body''\<rparr>)
       = exampleViewer
   \<and> handlePointerDown (pickAlways None) \<lparr>clientX = 10, clientY = 20\<rparr> exampleViewer
       = exampleViewer"
  using handlePointerDown_frame
    [where st = "exampleViewer\<lparr>selectedMaterialName := Some ''body''\<rparr>"
       and scene = exampleScene
       and pick = "pickAlways (Some \<lparr>hit = True, pickedMesh = Some (AbstractMesh None)\<rparr>)"
       and evt = "\<lparr>clientX = 10, clientY = 20\<rparr>" and mesh = "AbstractMesh None"]
    handlePointerDown_frame
    [where st = "exampleViewer\<lparr>selectedMaterialName := Some ''body''\<rparr>"
       and scene = exampleScene
       and pick = "pickAlways (Some \<lparr>hit = False, pickedMesh = None\<rparr>)"
       and evt = "\<lparr>clientX = 10, clientY = 20\<rparr>"]
    handlePointerDown_frame
    [where st = exampleViewer and scene = exampleScene and pick = "pickAlways None"
       and evt = "\<lparr>clientX = 10, clientY = 20\<rparr>"]
  by (simp add: example_defs hitMesh_def truthy_def)

text \<open>
  C10. For a non-null \<open>remoteCameraState\<close> the header bar holds exactly one button,
  given by the follow-mode type: "Spotlight me" for \<open>local\<close> and
  \<open>activeFollowers\<close>, "Stop spotlight" for \<open>activePresenter\<close>, "Stop following"
  for \<open>followUser\<close> and \<open>suspendFollowUser\<close>, "Take control" for
  \<open>followPresenter\<close> and \<open>suspendFollowPresenter\<close>.
\<close>

theorem topHeaderBar_buttons:
  "TopHeaderBar (Some rs) = Some (topHeaderBarRight (stateType rs))
   \<and> topHeaderBarRight local =
       [\<lparr>appearance = primary, onClick = startPresenting, label = ''Spotlight me''\<rparr>]
   \<and> topHeaderBarRight activeFollowers =
       [\<lparr>appearance = primary, onClick = startPresenting, label = ''Spotlight me''\<rparr>]
   \<and> topHeaderBarRight activePresenter =
       [\<lparr>appearance = primary, onClick = stopPresenting, label = ''Stop spotlight''\<rparr>]
   \<and> topHeaderBarRight followUser =
       [\<lparr>appearance = primary, onClick = stopFollowing, label = ''Stop following''\<rparr>]
   \<and> topHeaderBarRight suspendFollowUser =
       [\<lparr>appearance = primary, onClick = stopFollowing, label = ''Stop following''\<rparr>]
   \<and> topHeaderBarRight followPresenter =
       [\<lparr>appearance = secondary, onClick = startPresenting, label = ''Take control''\<rparr>]
   \<and> topHeaderBarRight suspendFollowPresenter =
       [\<lparr>appearance = secondary, onClick = startPresenting, label = ''Take control''\<rparr>]"
  by (simp add: TopHeaderBar_def topHeaderBarRight_def)

end
